theory Spec2Isabelle
  imports Main
begin

section \<open>The Granola fetcher: data model\<close>

text \<open>
  The module \<^verbatim>\<open>archiver/granola_fetcher.py\<close> wraps an external API client. The client,
  the \<^verbatim>\<open>Document\<close> class and the timestamp parser of \<^verbatim>\<open>dateutil\<close> are not part of the
  module: they are modelled by what the module reads from them, and passed in.
\<close>

subsection \<open>Exceptions\<close>

text \<open>
  Exceptions are values. \<open>ClientError\<close> and \<open>ParserError\<close> stand for whatever the client
  and the parser raise (the payload is their message); \<open>TypeError\<close> is what Python's
  \<^verbatim>\<open>datetime\<close> raises on an order comparison between a naive and an aware value.
\<close>

datatype error = ClientError string | ParserError string | TypeError

subsection \<open>Documents, segments, metadata\<close>

text \<open>The attributes of a \<^verbatim>\<open>Document\<close> that the module reads.\<close>

record document =
  document_id :: string
  updated_at :: string
  workspace_id :: string

text \<open>
  A transcript segment either has a \<^verbatim>\<open>text\<close> attribute, or it has none and is rendered
  with \<^verbatim>\<open>str(segment)\<close>; \<open>Opaque s\<close> is an object without the attribute whose \<^verbatim>\<open>str\<close>
  is \<open>s\<close>.
\<close>

datatype segment = TranscriptSegment string | Opaque string

text \<open>Values of a metadata dictionary.\<close>

datatype pyval = PyNone | PyBool bool | PyInt int | PyStr string | PyList "pyval list"

type_synonym metadata_dict = "string \<rightharpoonup> pyval"

text \<open>
  The object returned by \<^verbatim>\<open>get_document_metadata\<close>: a Pydantic model, whose
  \<^verbatim>\<open>model_dump()\<close> gives the dictionary it carries, or an object without that method.
\<close>

datatype metadata_obj = PydanticModel metadata_dict | PlainObject

text \<open>\<^verbatim>\<open>class DocumentDetails\<close>: the three attributes assigned by its constructor.\<close>

record document_details =
  document :: document
  transcript :: string
  metadata :: metadata_dict

subsection \<open>Timestamps\<close>

text \<open>
  A \<^verbatim>\<open>datetime\<close> is naive (no \<^verbatim>\<open>tzinfo\<close>) or aware. \<open>Naive w\<close> carries the wall-clock
  fields as a count \<open>w\<close> of microseconds; \<open>Aware w off\<close> carries the wall-clock fields and
  the UTC offset of its \<^verbatim>\<open>tzinfo\<close>, in microseconds.
\<close>

datatype datetime = Naive int | Aware int int

text \<open>\<^verbatim>\<open>dt.tzinfo\<close>, as the offset it stands for; \<open>None\<close> for a naive value.\<close>

fun tzinfo :: "datetime \<Rightarrow> int option" where
  "tzinfo (Naive w) = None"
| "tzinfo (Aware w off) = Some off"

text \<open>\<^verbatim>\<open>dt.replace(tzinfo=timezone.utc)\<close>: the wall-clock fields stay, the offset is 0.\<close>

fun replace_tzinfo_utc :: "datetime \<Rightarrow> datetime" where
  "replace_tzinfo_utc (Naive w) = Aware w 0"
| "replace_tzinfo_utc (Aware w off) = Aware w 0"

text \<open>
  \<^verbatim>\<open>a >= b\<close> on datetimes: two naive values compare by their wall-clock fields, two aware
  values by their UTC instants (wall clock minus offset), and a naive value against an
  aware one raises \<^verbatim>\<open>TypeError\<close>.
\<close>

fun datetime_ge :: "datetime \<Rightarrow> datetime \<Rightarrow> error + bool" where
  "datetime_ge (Naive a) (Naive b) = Inr (b \<le> a)"
| "datetime_ge (Aware a oa) (Aware b ob) = Inr (b - ob \<le> a - oa)"
| "datetime_ge (Naive a) (Aware b ob) = Inl TypeError"
| "datetime_ge (Aware a oa) (Naive b) = Inl TypeError"

subsection \<open>The external client\<close>

text \<open>
  An asynchronous generator, by what each \<^verbatim>\<open>__anext__\<close> does: it yields an item and
  leaves the rest of the generator, or raises \<^verbatim>\<open>StopAsyncIteration\<close> (the enumeration is
  over), or raises an error. It is a codatatype: an enumeration need not end.
\<close>

codatatype 'a agen = StopAsyncIteration | Raise error | Yield 'a "'a agen"

text \<open>
  The three operations of \<^verbatim>\<open>GranolaClient\<close> that the module calls.
  \<open>list_all_documents\<close> is the generator that a call of the method creates.
\<close>

record granola_client =
  list_all_documents :: "document agen"
  get_document_transcript :: "string \<Rightarrow> error + segment list"
  get_document_metadata :: "string \<Rightarrow> error + metadata_obj"

text \<open>The calls on the client that an operation awaits, in the order it awaits them.\<close>

datatype call =
  ListAllDocuments
| Anext
| GetDocumentTranscript string
| GetDocumentMetadata string

subsection \<open>The fetcher\<close>

text \<open>\<^verbatim>\<open>class GranolaFetcher\<close>: the only attribute assigned on \<^verbatim>\<open>self\<close> is \<^verbatim>\<open>client\<close>.\<close>

record fetcher =
  client :: granola_client

text \<open>
  What a method call leaves behind: the value it returns (\<open>Inr\<close>) or the exception it
  raises (\<open>Inl\<close>), the client calls it awaited, and the instance afterwards.
\<close>

record 'a outcome =
  result :: "error + 'a"
  awaited :: "call list"
  self_after :: fetcher

section \<open>Operations\<close>

subsection \<open>Construction\<close>

text \<open>
  \<^verbatim>\<open>GranolaFetcher.__init__\<close>. The constructor \<^verbatim>\<open>GranolaClient\<close> is a parameter: applied to
  \<open>Some token\<close> it is \<^verbatim>\<open>GranolaClient(token=token)\<close>, applied to \<open>None\<close> it is
  \<^verbatim>\<open>GranolaClient()\<close>. \<^verbatim>\<open>if token:\<close> is false for \<^verbatim>\<open>None\<close> and for the empty string.
\<close>

definition init ::
  "(string option \<Rightarrow> error + granola_client) \<Rightarrow> string option \<Rightarrow> error + fetcher" where
  "init GranolaClient token =
     (if token \<noteq> None \<and> token \<noteq> Some []
      then (case GranolaClient token of
              Inl e \<Rightarrow> Inl e
            | Inr c \<Rightarrow> Inr \<lparr>client = c\<rparr>)
      else (case GranolaClient None of
              Inl e \<Rightarrow> Inl e
            | Inr c \<Rightarrow> Inr \<lparr>client = c\<rparr>))"

subsection \<open>Transcript formatting\<close>

text \<open>Python's \<^verbatim>\<open>sep.join(lines)\<close>.\<close>

fun str_join :: "string \<Rightarrow> string list \<Rightarrow> string" where
  "str_join sep [] = []"
| "str_join sep [x] = x"
| "str_join sep (x # y # ys) = x @ sep @ str_join sep (y # ys)"

text \<open>\<^verbatim>\<open>segment.text if hasattr(segment, "text") else str(segment)\<close>.\<close>

fun segment_text :: "segment \<Rightarrow> string" where
  "segment_text (TranscriptSegment t) = t"
| "segment_text (Opaque s) = s"

text \<open>The loop of \<^verbatim>\<open>_format_transcript_segments\<close>, appending to \<^verbatim>\<open>lines\<close>.\<close>

fun append_lines :: "string list \<Rightarrow> segment list \<Rightarrow> string list" where
  "append_lines lines [] = lines"
| "append_lines lines (segment # segments) =
     append_lines (lines @ [segment_text segment]) segments"

definition format_transcript_segments :: "segment list \<Rightarrow> string" where
  "format_transcript_segments segments =
     (if segments = [] then []
      else str_join ''\<newline>\<newline>'' (append_lines [] segments))"

subsection \<open>Listing documents\<close>

text \<open>
  \<^verbatim>\<open>[doc async for doc in self.client.list_all_documents()]\<close>: the generator is pulled
  until it is over or raises. \<open>acc\<close> is the list built so far and \<open>n\<close> the number of
  \<^verbatim>\<open>__anext__\<close> calls awaited so far; the result carries the list (or the error raised
  by the generator) and the final count. On a generator that never ends the
  comprehension does not return: the value is \<open>None\<close>.
\<close>

partial_function (option) drain ::
  "document agen \<Rightarrow> document list \<Rightarrow> nat \<Rightarrow> ((error + document list) \<times> nat) option" where
  "drain g acc n =
     (case g of
        StopAsyncIteration \<Rightarrow> Some (Inr acc, Suc n)
      | Raise e \<Rightarrow> Some (Inl e, Suc n)
      | Yield doc g' \<Rightarrow> drain g' (acc @ [doc]) (Suc n))"

declare drain.simps [code]

text \<open>
  \<^verbatim>\<open>[doc for doc in all_documents if parse_datetime(doc.updated_at) >= since]\<close>, where
  \<open>parse_datetime\<close> is the parser of \<^verbatim>\<open>dateutil\<close>, a parameter. The documents are visited
  in order; the first parse error or comparison error ends the comprehension.
\<close>

fun filter_since ::
  "(string \<Rightarrow> error + datetime) \<Rightarrow> datetime \<Rightarrow> document list \<Rightarrow> error + document list" where
  "filter_since parse_datetime since [] = Inr []"
| "filter_since parse_datetime since (doc # docs) =
     (case parse_datetime (updated_at doc) of
        Inl e \<Rightarrow> Inl e
      | Inr t \<Rightarrow>
          (case datetime_ge t since of
             Inl e \<Rightarrow> Inl e
           | Inr keep \<Rightarrow>
               (case filter_since parse_datetime since docs of
                  Inl e \<Rightarrow> Inl e
                | Inr kept \<Rightarrow> Inr (if keep then doc # kept else kept))))"

text \<open>
  Lines 60 to 69 of the source: \<^verbatim>\<open>if since:\<close> holds for every \<^verbatim>\<open>datetime\<close> and fails for
  \<^verbatim>\<open>None\<close>; a naive \<open>since\<close> is given the UTC zone before the comparison.
\<close>

definition apply_since ::
  "(string \<Rightarrow> error + datetime) \<Rightarrow> datetime option \<Rightarrow> document list \<Rightarrow> error + document list" where
  "apply_since parse_datetime since all_documents =
     (case since of
        None \<Rightarrow> Inr all_documents
      | Some s \<Rightarrow>
          filter_since parse_datetime
            (if tzinfo s = None then replace_tzinfo_utc s else s) all_documents)"

text \<open>
  Lines 71 to 73: \<^verbatim>\<open>if workspace_ids:\<close> fails for \<^verbatim>\<open>None\<close> and for the empty list.
\<close>

definition apply_workspaces :: "string list option \<Rightarrow> document list \<Rightarrow> document list" where
  "apply_workspaces workspace_ids all_documents =
     (case workspace_ids of
        None \<Rightarrow> all_documents
      | Some ids \<Rightarrow>
          if ids = [] then all_documents
          else filter (\<lambda>doc. workspace_id doc \<in> set ids) all_documents)"

definition fetch_new_documents ::
  "(string \<Rightarrow> error + datetime) \<Rightarrow> fetcher \<Rightarrow> datetime option \<Rightarrow> string list option
     \<Rightarrow> document list outcome option" where
  "fetch_new_documents parse_datetime self since workspace_ids =
     (case drain (list_all_documents (client self)) [] 0 of
        None \<Rightarrow> None
      | Some (Inl e, n) \<Rightarrow>
          Some \<lparr>result = Inl e, awaited = ListAllDocuments # replicate n Anext,
                 self_after = self\<rparr>
      | Some (Inr all_documents, n) \<Rightarrow>
          (case apply_since parse_datetime since all_documents of
             Inl e \<Rightarrow>
               Some \<lparr>result = Inl e, awaited = ListAllDocuments # replicate n Anext,
                      self_after = self\<rparr>
           | Inr all_documents' \<Rightarrow>
               Some \<lparr>result = Inr (apply_workspaces workspace_ids all_documents'),
                      awaited = ListAllDocuments # replicate n Anext,
                      self_after = self\<rparr>))"

subsection \<open>Document details\<close>

text \<open>
  \<^verbatim>\<open>metadata_obj.model_dump() if hasattr(metadata_obj, "model_dump") else {}\<close>.
\<close>

fun dump_metadata :: "metadata_obj \<Rightarrow> metadata_dict" where
  "dump_metadata (PydanticModel d) = d"
| "dump_metadata PlainObject = Map.empty"

definition fetch_document_details :: "fetcher \<Rightarrow> document \<Rightarrow> document_details outcome" where
  "fetch_document_details self doc =
     (let doc_id = document_id doc in
      case get_document_transcript (client self) doc_id of
        Inl e \<Rightarrow>
          \<lparr>result = Inl e, awaited = [GetDocumentTranscript doc_id], self_after = self\<rparr>
      | Inr transcript_segments \<Rightarrow>
          (let transcript' = format_transcript_segments transcript_segments in
           case get_document_metadata (client self) doc_id of
             Inl e \<Rightarrow>
               \<lparr>result = Inl e,
                awaited = [GetDocumentTranscript doc_id, GetDocumentMetadata doc_id],
                self_after = self\<rparr>
           | Inr metadata_obj \<Rightarrow>
               \<lparr>result = Inr \<lparr>document = doc, transcript = transcript',
                               metadata = dump_metadata metadata_obj\<rparr>,
                awaited = [GetDocumentTranscript doc_id, GetDocumentMetadata doc_id],
                self_after = self\<rparr>))"

subsection \<open>Lookup by identifier\<close>

text \<open>
  The \<^verbatim>\<open>async for\<close> loop of \<^verbatim>\<open>fetch_document_by_id\<close>: \<open>n\<close> counts the \<^verbatim>\<open>__anext__\<close> calls
  awaited so far. The loop returns at the first document with the identifier, returns
  \<^verbatim>\<open>None\<close> when the generator is over, and lets an error of the generator through.
  On a generator that never ends and never yields the identifier it does not return.
\<close>

partial_function (option) scan ::
  "string \<Rightarrow> document agen \<Rightarrow> nat \<Rightarrow> ((error + document option) \<times> nat) option" where
  "scan doc_id g n =
     (case g of
        StopAsyncIteration \<Rightarrow> Some (Inr None, Suc n)
      | Raise e \<Rightarrow> Some (Inl e, Suc n)
      | Yield doc g' \<Rightarrow>
          if document_id doc = doc_id then Some (Inr (Some doc), Suc n)
          else scan doc_id g' (Suc n))"

declare scan.simps [code]

definition fetch_document_by_id :: "fetcher \<Rightarrow> string \<Rightarrow> document option outcome option" where
  "fetch_document_by_id self doc_id =
     (case scan doc_id (list_all_documents (client self)) 0 of
        None \<Rightarrow> None
      | Some (r, n) \<Rightarrow>
          Some \<lparr>result = r, awaited = ListAllDocuments # replicate n Anext,
                 self_after = self\<rparr>)"

section \<open>Enumerations\<close>

text \<open>
  The generator that yields the documents of \<open>docs\<close> in order and then behaves as
  \<open>rest\<close>; with \<open>rest = StopAsyncIteration\<close> it is the enumeration of exactly \<open>docs\<close>.
\<close>

fun yields :: "document list \<Rightarrow> document agen \<Rightarrow> document agen" where
  "yields [] rest = rest"
| "yields (doc # docs) rest = Yield doc (yields docs rest)"

definition enumerates :: "document list \<Rightarrow> document agen" where
  "enumerates docs = yields docs StopAsyncIteration"

text \<open>A listing that never ends: it yields the document \<open>d\<close> at every pull.\<close>

primcorec forever :: "document \<Rightarrow> document agen" where
  "forever d = Yield d (forever d)"

section \<open>Vocabulary of the properties\<close>

text \<open>
  The instant a timestamp denotes, in microseconds: the wall clock of an aware value
  minus its offset; the wall clock of a naive value, read as UTC.
\<close>

fun utc_instant :: "datetime \<Rightarrow> int" where
  "utc_instant (Naive w) = w"
| "utc_instant (Aware w off) = w - off"

section \<open>Example data\<close>

text \<open>
  A few documents, and what the parser of \<^verbatim>\<open>dateutil\<close> gives on their timestamps, with
  the wall clock counted in microseconds from the start of 2024: a string with an
  offset parses to an aware value, a string without one to a naive value, and anything
  else raises.
\<close>

definition doc_a :: document where
  "doc_a = \<lparr>document_id = ''a'', updated_at = ''2024-01-01T00:00:00Z'', workspace_id = ''w1''\<rparr>"

definition doc_b :: document where
  "doc_b = \<lparr>document_id = ''b'', updated_at = ''2024-01-02T00:00:00+00:00'',
            workspace_id = ''w2''\<rparr>"

definition doc_c :: document where
  "doc_c = \<lparr>document_id = ''c'', updated_at = ''2024-01-01T01:00:00+02:00'',
            workspace_id = ''w1''\<rparr>"

definition doc_dup :: document where
  "doc_dup = \<lparr>document_id = ''a'', updated_at = ''2024-01-03T00:00:00'', workspace_id = ''w3''\<rparr>"

definition doc_bad :: document where
  "doc_bad = \<lparr>document_id = ''x'', updated_at = ''yesterday-ish'', workspace_id = ''w1''\<rparr>"

definition example_parse :: "string \<Rightarrow> error + datetime" where
  "example_parse s =
     (if s = ''2024-01-01T00:00:00Z'' then Inr (Aware 0 0)
      else if s = ''2024-01-02T00:00:00+00:00'' then Inr (Aware 86400000000 0)
      else if s = ''2024-01-01T01:00:00+02:00'' then Inr (Aware 3600000000 7200000000)
      else if s = ''2024-01-03T00:00:00'' then Inr (Naive 172800000000)
      else Inl (ParserError s))"

text \<open>
  A client whose listing is the generator \<open>g\<close>, with a transcript of two segments and
  exportable metadata for document \<open>a\<close>, an empty transcript and metadata without
  export for document \<open>b\<close>, a transcript but failing metadata for document \<open>c\<close>, and a
  failure for every other identifier.
\<close>

definition example_client :: "document agen \<Rightarrow> granola_client" where
  "example_client g =
     \<lparr>list_all_documents = g,
      get_document_transcript = (\<lambda>i.
        if i = ''a'' then Inr [TranscriptSegment ''Hello'', TranscriptSegment ''World'']
        else if i = ''b'' then Inr []
        else if i = ''c'' then Inr [TranscriptSegment ''Only'']
        else Inl (ClientError ''transcript not found'')),
      get_document_metadata = (\<lambda>i.
        if i = ''a'' then Inr (PydanticModel [''title'' \<mapsto> PyStr ''Standup''])
        else if i = ''b'' then Inr PlainObject
        else Inl (ClientError ''metadata not found''))\<rparr>"

definition example_fetcher :: "document agen \<Rightarrow> fetcher" where
  "example_fetcher g = \<lparr>client = example_client g\<rparr>"

section \<open>Auxiliary facts\<close>

subsection \<open>Pulling a generator\<close>

lemma drain_Stop [simp]: "drain StopAsyncIteration acc n = Some (Inr acc, Suc n)"
  by (subst drain.simps) simp

lemma drain_Raise [simp]: "drain (Raise e) acc n = Some (Inl e, Suc n)"
  by (subst drain.simps) simp

lemma drain_Yield [simp]: "drain (Yield doc g) acc n = drain g (acc @ [doc]) (Suc n)"
  by (subst drain.simps) simp

lemma scan_Stop [simp]: "scan i StopAsyncIteration n = Some (Inr None, Suc n)"
  by (subst scan.simps) simp

lemma scan_Raise [simp]: "scan i (Raise e) n = Some (Inl e, Suc n)"
  by (subst scan.simps) simp

lemma scan_Yield [simp]:
  "scan i (Yield doc g) n =
     (if document_id doc = i then Some (Inr (Some doc), Suc n) else scan i g (Suc n))"
  by (subst scan.simps) simp

lemma drain_yields: "drain (yields docs rest) acc n = drain rest (acc @ docs) (n + length docs)"
  by (induction docs arbitrary: acc n) simp_all

lemma drain_enumerates: "drain (enumerates docs) [] 0 = Some (Inr docs, Suc (length docs))"
  by (simp add: enumerates_def drain_yields)

lemma scan_yields:
  "\<forall>d\<in>set docs. document_id d \<noteq> i \<Longrightarrow>
   scan i (yields docs rest) n = scan i rest (n + length docs)"
  by (induction docs arbitrary: n) simp_all

lemma scan_enumerates_result:
  "map_option fst (scan i (yields D StopAsyncIteration) n) =
   Some (Inr (find (\<lambda>d. document_id d = i) D))"
  by (induction D arbitrary: n) simp_all

lemma fetch_document_by_id_result:
  "map_option result (fetch_document_by_id self i) =
   map_option fst (scan i (list_all_documents (client self)) 0)"
  by (simp add: fetch_document_by_id_def split: option.splits prod.splits)

subsection \<open>A listing that never ends\<close>

text \<open>
  The value \<open>None\<close> of the two loops is not returning: pulling a listing that never ends
  to completion does not return, nor does the search for an identifier it never yields.
\<close>

lemma drain_forever_aux: "drain g acc n = Some y \<Longrightarrow> g \<noteq> forever d"
proof (induction rule: drain.raw_induct [rotated 1, consumes 1])
  case (1 drain' g acc n y)
  show ?case
  proof
    assume g: "g = forever d"
    have "g = Yield d (forever d)"
      unfolding g by (rule forever.code)
    with 1(2) have "drain' (forever d) (acc @ [d]) (Suc n) = Some y"
      by simp
    from 1(1) [OF this] show False
      by simp
  qed
qed

lemma drain_forever: "drain (forever d) acc n = None"
  using drain_forever_aux [of "forever d" acc n _ d] by (cases "drain (forever d) acc n") auto

lemma scan_forever_aux:
  "scan i g n = Some y \<Longrightarrow> g = forever d \<Longrightarrow> document_id d \<noteq> i \<Longrightarrow> False"
proof (induction rule: scan.raw_induct [rotated 1, consumes 1])
  case (1 scan' i g n y)
  have "g = Yield d (forever d)"
    unfolding 1(3) by (rule forever.code)
  with 1(2) 1(4) have "scan' i (forever d) (Suc n) = Some y"
    by simp
  from 1(1) [OF this refl 1(4)] show ?case .
qed

lemma scan_forever: "document_id d \<noteq> i \<Longrightarrow> scan i (forever d) n = None"
  using scan_forever_aux [of i "forever d" n _ d] by (cases "scan i (forever d) n") auto

lemma fetch_new_documents_forever:
  "list_all_documents (client self) = forever d \<Longrightarrow>
   fetch_new_documents parse_datetime self since workspace_ids = None"
  by (simp add: fetch_new_documents_def drain_forever)

lemma fetch_document_by_id_forever:
  "list_all_documents (client self) = forever d \<Longrightarrow> document_id d \<noteq> i \<Longrightarrow>
   fetch_document_by_id self i = None"
  by (simp add: fetch_document_by_id_def scan_forever)

subsection \<open>The update-time filter on well-formed timestamps\<close>

lemma filter_since_Aware:
  assumes "\<forall>d\<in>set D. parse_datetime (updated_at d) = Inr (ts d) \<and> tzinfo (ts d) \<noteq> None"
  shows "filter_since parse_datetime (Aware w off) D =
         Inr (filter (\<lambda>d. w - off \<le> utc_instant (ts d)) D)"
  using assms
proof (induction D)
  case Nil
  then show ?case by simp
next
  case (Cons d D)
  obtain w' off' where t: "ts d = Aware w' off'"
    using Cons.prems by (cases "ts d") auto
  have p: "parse_datetime (updated_at d) = Inr (Aware w' off')"
    using Cons.prems t by simp
  have ih: "filter_since parse_datetime (Aware w off) D =
         Inr (filter (\<lambda>d. w - off \<le> utc_instant (ts d)) D)"
    using Cons by simp
  show ?case
    by (simp add: p ih t)
qed

lemma filter_since_aware:
  assumes "\<forall>d\<in>set D. parse_datetime (updated_at d) = Inr (ts d) \<and> tzinfo (ts d) \<noteq> None"
      and "tzinfo s \<noteq> None"
  shows "filter_since parse_datetime s D =
         Inr (filter (\<lambda>d. utc_instant s \<le> utc_instant (ts d)) D)"
proof -
  obtain w off where s: "s = Aware w off"
    using assms(2) by (cases s) auto
  show ?thesis
    unfolding s using filter_since_Aware [OF assms(1)] by simp
qed

lemma utc_instant_normalise:
  "utc_instant (if tzinfo s = None then replace_tzinfo_utc s else s) = utc_instant s"
  by (cases s) simp_all

lemma tzinfo_normalise:
  "tzinfo (if tzinfo s = None then replace_tzinfo_utc s else s) \<noteq> None"
  by (cases s) simp_all

lemma apply_since_aware:
  assumes "\<forall>d\<in>set D. parse_datetime (updated_at d) = Inr (ts d) \<and> tzinfo (ts d) \<noteq> None"
  shows "apply_since parse_datetime (Some since) D =
         Inr (filter (\<lambda>d. utc_instant since \<le> utc_instant (ts d)) D)"
  unfolding apply_since_def option.case
  using filter_since_aware [OF assms tzinfo_normalise, of since]
  by (simp only: utc_instant_normalise)

lemma apply_workspaces_empty: "apply_workspaces (Some []) docs = apply_workspaces None docs"
  by (simp add: apply_workspaces_def)


lemma filter_since_parse_error_Aware:
  assumes "\<forall>d\<in>set docs. parse_datetime (updated_at d) = Inr (ts d) \<and> tzinfo (ts d) \<noteq> None"
      and "parse_datetime (updated_at bad) = Inl e"
  shows "filter_since parse_datetime (Aware w off) (docs @ bad # docs') = Inl e"
  using assms(1)
proof (induction docs)
  case Nil
  show ?case by (simp add: assms(2))
next
  case (Cons d docs)
  obtain w' off' where t: "ts d = Aware w' off'"
    using Cons.prems by (cases "ts d") auto
  have p: "parse_datetime (updated_at d) = Inr (Aware w' off')"
    using Cons.prems t by simp
  have ih: "filter_since parse_datetime (Aware w off) (docs @ bad # docs') = Inl e"
    using Cons by simp
  show ?case
    by (simp add: p ih)
qed

lemma apply_since_parse_error:
  assumes "\<forall>d\<in>set docs. parse_datetime (updated_at d) = Inr (ts d) \<and> tzinfo (ts d) \<noteq> None"
      and "parse_datetime (updated_at bad) = Inl e"
  shows "apply_since parse_datetime (Some s) (docs @ bad # docs') = Inl e"
  using filter_since_parse_error_Aware [OF assms]
  by (cases s) (simp_all add: apply_since_def)

subsection \<open>Transcripts\<close>

lemma append_lines_map: "append_lines lines segments = lines @ map segment_text segments"
  by (induction segments arbitrary: lines) simp_all

lemma format_transcript_segments_join:
  "format_transcript_segments segments =
   str_join ''\<newline>\<newline>'' (map segment_text segments)"
  by (simp add: format_transcript_segments_def append_lines_map)

section \<open>Properties of the operations\<close>

text \<open>
  C1. When the client's listing is the enumeration of the documents \<open>D\<close> and every
  update timestamp of \<open>D\<close> parses to an aware (absolute) value \<open>ts d\<close>,
  \<open>fetch_new_documents\<close> with a threshold \<open>since\<close> and no workspace list returns exactly
  the documents of \<open>D\<close> whose parsed update timestamp is at or after \<open>since\<close>, in the
  order of \<open>D\<close>. A naive \<open>since\<close> is read as UTC.
\<close>

theorem fetch_new_documents_since:
  assumes "list_all_documents (client self) = enumerates D"
      and "\<forall>d\<in>set D. parse_datetime (updated_at d) = Inr (ts d) \<and> tzinfo (ts d) \<noteq> None"
  shows "map_option result (fetch_new_documents parse_datetime self (Some since) None) =
         Some (Inr (filter (\<lambda>d. utc_instant since \<le> utc_instant (ts d)) D))"
  by (simp add: fetch_new_documents_def assms(1) drain_enumerates
      apply_since_aware [OF assms(2)] apply_workspaces_def)

theorem fetch_new_documents_since_witness:
  "map_option result
     (fetch_new_documents example_parse (example_fetcher (enumerates [doc_a, doc_b, doc_c]))
        (Some (Naive 0)) None) =
   Some (Inr [doc_a, doc_b])"
proof -
  let ?ts = "\<lambda>d. projr (example_parse (updated_at d))"
  have h1: "list_all_documents (client (example_fetcher (enumerates [doc_a, doc_b, doc_c]))) =
      enumerates [doc_a, doc_b, doc_c]"
    by (simp add: example_fetcher_def example_client_def)
  have h2: "\<forall>d\<in>set [doc_a, doc_b, doc_c].
      example_parse (updated_at d) = Inr (?ts d) \<and> tzinfo (?ts d) \<noteq> None"
    by (simp add: example_parse_def doc_a_def doc_b_def doc_c_def)
  have kept: "filter (\<lambda>d. utc_instant (Naive 0) \<le> utc_instant (?ts d)) [doc_a, doc_b, doc_c] =
      [doc_a, doc_b]"
    by (simp add: example_parse_def doc_a_def doc_b_def doc_c_def)
  show ?thesis
    using fetch_new_documents_since [OF h1 h2, of "Naive 0"]
    by (simp only: kept)
qed

text \<open>
  C2, as amended. When the client's listing is the enumeration of \<open>D\<close>:
  with a workspace list \<open>W\<close> that is not empty and no threshold, \<open>fetch_new_documents\<close>
  returns exactly the documents of \<open>D\<close> whose workspace identifier is in \<open>W\<close>, in the
  order of \<open>D\<close>; with a threshold as well (and update timestamps that parse to aware
  values) it returns the documents that pass both filters. The update-time filter is
  applied first, to every document: the parse error of the first document whose
  timestamp does not parse is the outcome, whether or not its workspace is in \<open>W\<close>.
  An empty workspace list is treated as not provided: without a threshold the whole of
  \<open>D\<close> is returned, and with one the documents of \<open>D\<close> at or after it.
\<close>

theorem fetch_new_documents_workspaces:
  assumes "list_all_documents (client self) = enumerates D"
  shows "(W \<noteq> [] \<longrightarrow>
            map_option result (fetch_new_documents parse_datetime self None (Some W)) =
              Some (Inr (filter (\<lambda>d. workspace_id d \<in> set W) D)))
       \<and> (W \<noteq> [] \<and>
          (\<forall>d\<in>set D. parse_datetime (updated_at d) = Inr (ts d) \<and> tzinfo (ts d) \<noteq> None) \<longrightarrow>
            map_option result (fetch_new_documents parse_datetime self (Some since) (Some W)) =
              Some (Inr (filter (\<lambda>d. workspace_id d \<in> set W)
                          (filter (\<lambda>d. utc_instant since \<le> utc_instant (ts d)) D))))
       \<and> (D = docs @ bad # docs' \<and>
          (\<forall>d\<in>set docs. parse_datetime (updated_at d) = Inr (ts d) \<and> tzinfo (ts d) \<noteq> None) \<and>
          parse_datetime (updated_at bad) = Inl e \<longrightarrow>
            map_option result (fetch_new_documents parse_datetime self (Some since) (Some W)) =
              Some (Inl e))
       \<and> map_option result (fetch_new_documents parse_datetime self None (Some [])) =
            Some (Inr D)
       \<and> ((\<forall>d\<in>set D. parse_datetime (updated_at d) = Inr (ts d) \<and> tzinfo (ts d) \<noteq> None) \<longrightarrow>
            map_option result (fetch_new_documents parse_datetime self (Some since) (Some [])) =
              Some (Inr (filter (\<lambda>d. utc_instant since \<le> utc_instant (ts d)) D)))"
proof (intro conjI impI; (elim conjE)?)
  assume "W \<noteq> []"
  then show "map_option result (fetch_new_documents parse_datetime self None (Some W)) =
           Some (Inr (filter (\<lambda>d. workspace_id d \<in> set W) D))"
    using assms
    by (simp add: fetch_new_documents_def drain_enumerates apply_since_def apply_workspaces_def)
next
  assume w: "W \<noteq> []"
    and ok: "\<forall>d\<in>set D. parse_datetime (updated_at d) = Inr (ts d) \<and> tzinfo (ts d) \<noteq> None"
  show "map_option result (fetch_new_documents parse_datetime self (Some since) (Some W)) =
              Some (Inr (filter (\<lambda>d. workspace_id d \<in> set W)
                          (filter (\<lambda>d. utc_instant since \<le> utc_instant (ts d)) D)))"
    using assms w
    by (simp add: fetch_new_documents_def drain_enumerates apply_since_aware [OF ok]
        apply_workspaces_def)
next
  assume d: "D = docs @ bad # docs'"
    and ok: "\<forall>d\<in>set docs. parse_datetime (updated_at d) = Inr (ts d) \<and> tzinfo (ts d) \<noteq> None"
    and bad: "parse_datetime (updated_at bad) = Inl e"
  show "map_option result (fetch_new_documents parse_datetime self (Some since) (Some W)) =
              Some (Inl e)"
    using assms
    by (simp add: fetch_new_documents_def drain_enumerates d
        apply_since_parse_error [OF ok bad])
next
  show "map_option result (fetch_new_documents parse_datetime self None (Some [])) =
            Some (Inr D)"
    using assms
    by (simp add: fetch_new_documents_def drain_enumerates apply_since_def apply_workspaces_def)
next
  assume ok: "\<forall>d\<in>set D. parse_datetime (updated_at d) = Inr (ts d) \<and> tzinfo (ts d) \<noteq> None"
  show "map_option result (fetch_new_documents parse_datetime self (Some since) (Some [])) =
              Some (Inr (filter (\<lambda>d. utc_instant since \<le> utc_instant (ts d)) D))"
    using assms
    by (simp add: fetch_new_documents_def drain_enumerates apply_since_aware [OF ok]
        apply_workspaces_def)
qed

theorem fetch_new_documents_workspaces_witness:
  "map_option result
     (fetch_new_documents example_parse (example_fetcher (enumerates [doc_a, doc_b, doc_c]))
        None (Some [''w1''])) = Some (Inr [doc_a, doc_c])
   \<and> map_option result
     (fetch_new_documents example_parse (example_fetcher (enumerates [doc_a, doc_b, doc_c]))
        (Some (Naive 0)) (Some [''w1''])) = Some (Inr [doc_a])
   \<and> map_option result
     (fetch_new_documents example_parse (example_fetcher (enumerates [doc_a, doc_bad, doc_b]))
        (Some (Naive 0)) (Some [''w2''])) = Some (Inl (ParserError ''yesterday-ish''))
   \<and> map_option result
     (fetch_new_documents example_parse (example_fetcher (enumerates [doc_a, doc_b, doc_c]))
        None (Some [])) = Some (Inr [doc_a, doc_b, doc_c])
   \<and> map_option result
     (fetch_new_documents example_parse (example_fetcher (enumerates [doc_a, doc_b, doc_c]))
        (Some (Naive 0)) (Some [])) = Some (Inr [doc_a, doc_b])"
proof -
  let ?ts = "\<lambda>d. projr (example_parse (updated_at d))"
  let ?D = "[doc_a, doc_b, doc_c]"
  let ?E = "[doc_a, doc_bad, doc_b]"
  have h1: "list_all_documents (client (example_fetcher (enumerates ?D))) = enumerates ?D"
    by (simp add: example_fetcher_def example_client_def)
  have h1': "list_all_documents (client (example_fetcher (enumerates ?E))) = enumerates ?E"
    by (simp add: example_fetcher_def example_client_def)
  have h2: "[''w1''] \<noteq> []"
    by simp
  have h3: "\<forall>d\<in>set ?D. example_parse (updated_at d) = Inr (?ts d) \<and> tzinfo (?ts d) \<noteq> None"
    by (simp add: example_parse_def doc_a_def doc_b_def doc_c_def)
  have e1: "?E = [doc_a] @ doc_bad # [doc_b]"
    by simp
  have e2: "\<forall>d\<in>set [doc_a].
      example_parse (updated_at d) = Inr (?ts d) \<and> tzinfo (?ts d) \<noteq> None"
    by (simp add: example_parse_def doc_a_def)
  have e3: "example_parse (updated_at doc_bad) = Inl (ParserError ''yesterday-ish'')"
    by (simp add: example_parse_def doc_bad_def)
  have k1: "filter (\<lambda>d. workspace_id d \<in> set [''w1'']) ?D = [doc_a, doc_c]"
    by (simp add: doc_a_def doc_b_def doc_c_def)
  have k2: "filter (\<lambda>d. workspace_id d \<in> set [''w1'']) [doc_a, doc_b] = [doc_a]"
    by (simp add: doc_a_def doc_b_def)
  have k3: "filter (\<lambda>d. utc_instant (Naive 0) \<le> utc_instant (?ts d)) ?D = [doc_a, doc_b]"
    by (simp add: example_parse_def doc_a_def doc_b_def doc_c_def)
  note T = fetch_new_documents_workspaces [OF h1, where parse_datetime = example_parse
      and ts = ?ts and since = "Naive 0"]
  note a = T [where W = "[''w1'']", THEN conjunct1, THEN mp, OF h2]
  note b = T [where W = "[''w1'']", THEN conjunct2, THEN conjunct1, THEN mp,
      OF conjI [OF h2 h3]]
  note c = fetch_new_documents_workspaces [OF h1', where parse_datetime = example_parse
      and ts = ?ts and since = "Naive 0" and W = "[''w2'']" and docs = "[doc_a]"
      and bad = doc_bad and docs' = "[doc_b]" and e = "ParserError ''yesterday-ish''",
      THEN conjunct2, THEN conjunct2, THEN conjunct1, THEN mp,
      OF conjI [OF e1 conjI [OF e2 e3]]]
  note d = T [THEN conjunct2, THEN conjunct2, THEN conjunct2, THEN conjunct1]
  note e = T [THEN conjunct2, THEN conjunct2, THEN conjunct2, THEN conjunct2, THEN mp, OF h3]
  show ?thesis
    using a b c d e
    by (simp only: k3 k1 k2 simp_thms)
qed

text \<open>
  The claim as first stated covers the empty workspace list, for which no workspace
  identifier is in \<open>W\<close>: the result would be empty. The code returns both documents.
\<close>

theorem fetch_new_documents_empty_workspaces_counterexample:
  "map_option result
     (fetch_new_documents example_parse (example_fetcher (enumerates [doc_a, doc_b]))
        None (Some [])) = Some (Inr [doc_a, doc_b])
   \<and> map_option result
     (fetch_new_documents example_parse (example_fetcher (enumerates [doc_a, doc_b]))
        None (Some [])) \<noteq> Some (Inr [])"
  by (simp add: fetch_new_documents_def drain_enumerates apply_since_def apply_workspaces_def
      example_fetcher_def example_client_def)

text \<open>
  C3. When both client calls succeed, the transcript of the details returned by
  \<open>fetch_document_details\<close> is the texts of the segments joined with two newlines; an
  empty segment list gives the empty string, and the segments \<^verbatim>\<open>Hello\<close>, \<^verbatim>\<open>World\<close> give
  \<^verbatim>\<open>Hello\<close>, a blank line, \<^verbatim>\<open>World\<close>.
\<close>

theorem fetch_document_details_transcript:
  assumes "get_document_transcript (client self) (document_id doc) = Inr segments"
      and "get_document_metadata (client self) (document_id doc) = Inr m"
  shows "\<exists>details. result (fetch_document_details self doc) = Inr details \<and>
           transcript details = str_join ''\<newline>\<newline>'' (map segment_text segments) \<and>
           (segments = [] \<longrightarrow> transcript details = '''') \<and>
           (segments = [TranscriptSegment ''Hello'', TranscriptSegment ''World''] \<longrightarrow>
              transcript details = ''Hello\<newline>\<newline>World'')"
  using assms
  by (simp add: fetch_document_details_def Let_def format_transcript_segments_join)

theorem fetch_document_details_transcript_witness:
  "(\<exists>details. result (fetch_document_details (example_fetcher StopAsyncIteration) doc_a) =
       Inr details \<and> transcript details = ''Hello\<newline>\<newline>World'')
   \<and> (\<exists>details. result (fetch_document_details (example_fetcher StopAsyncIteration) doc_b) =
       Inr details \<and> transcript details = '''')"
proof -
  let ?f = "example_fetcher StopAsyncIteration"
  have a1: "get_document_transcript (client ?f) (document_id doc_a) =
      Inr [TranscriptSegment ''Hello'', TranscriptSegment ''World'']"
    by (simp add: example_fetcher_def example_client_def doc_a_def)
  have a2: "get_document_metadata (client ?f) (document_id doc_a) =
      Inr (PydanticModel [''title'' \<mapsto> PyStr ''Standup''])"
    by (simp add: example_fetcher_def example_client_def doc_a_def)
  have b1: "get_document_transcript (client ?f) (document_id doc_b) = Inr []"
    by (simp add: example_fetcher_def example_client_def doc_b_def)
  have b2: "get_document_metadata (client ?f) (document_id doc_b) = Inr PlainObject"
    by (simp add: example_fetcher_def example_client_def doc_b_def)
  have j1: "str_join ''\<newline>\<newline>''
      (map segment_text [TranscriptSegment ''Hello'', TranscriptSegment ''World'']) =
      ''Hello\<newline>\<newline>World''"
    by simp
  have j2: "str_join ''\<newline>\<newline>'' (map segment_text []) = ''''"
    by simp
  show ?thesis
    using fetch_document_details_transcript [OF a1 a2]
      fetch_document_details_transcript [OF b1 b2]
    by (simp only: j1 j2) blast
qed

text \<open>
  C4. When the client's listing is the enumeration of \<open>D\<close>, \<open>fetch_document_by_id\<close>
  returns the first document of \<open>D\<close> with the identifier, and \<^verbatim>\<open>None\<close> (a returned value,
  not an exception) when no document of \<open>D\<close> has it, after pulling the whole listing.
\<close>

theorem fetch_document_by_id_first_match:
  assumes "list_all_documents (client self) = enumerates D"
  shows "map_option result (fetch_document_by_id self i) =
           Some (Inr (find (\<lambda>d. document_id d = i) D))
       \<and> ((\<forall>d\<in>set D. document_id d \<noteq> i) \<longrightarrow>
            fetch_document_by_id self i =
              Some \<lparr>result = Inr None,
                     awaited = ListAllDocuments # replicate (length D + 1) Anext,
                     self_after = self\<rparr>)"
proof (intro conjI impI)
  show "map_option result (fetch_document_by_id self i) =
           Some (Inr (find (\<lambda>d. document_id d = i) D))"
    unfolding fetch_document_by_id_result assms enumerates_def
    by (rule scan_enumerates_result)
next
  assume "\<forall>d\<in>set D. document_id d \<noteq> i"
  then have "scan i (yields D StopAsyncIteration) 0 = Some (Inr None, Suc (length D))"
    by (simp add: scan_yields)
  then show "fetch_document_by_id self i =
              Some \<lparr>result = Inr None,
                     awaited = ListAllDocuments # replicate (length D + 1) Anext,
                     self_after = self\<rparr>"
    by (simp add: fetch_document_by_id_def assms enumerates_def)
qed

theorem fetch_document_by_id_first_match_witness:
  "map_option result
     (fetch_document_by_id (example_fetcher (enumerates [doc_b, doc_a, doc_dup])) ''a'') =
     Some (Inr (Some doc_a))
   \<and> fetch_document_by_id (example_fetcher (enumerates [doc_b, doc_a, doc_dup])) ''zz'' =
     Some \<lparr>result = Inr None,
            awaited = [ListAllDocuments, Anext, Anext, Anext, Anext],
            self_after = example_fetcher (enumerates [doc_b, doc_a, doc_dup])\<rparr>"
proof -
  let ?D = "[doc_b, doc_a, doc_dup]"
  have h: "list_all_documents (client (example_fetcher (enumerates ?D))) = enumerates ?D"
    by (simp add: example_fetcher_def example_client_def)
  have none: "\<forall>d\<in>set ?D. document_id d \<noteq> ''zz''"
    by (simp add: doc_a_def doc_b_def doc_dup_def)
  have f: "find (\<lambda>d. document_id d = ''a'') ?D = Some doc_a"
    by (simp add: doc_a_def doc_b_def doc_dup_def)
  have r: "ListAllDocuments # replicate (length ?D + 1) Anext =
      [ListAllDocuments, Anext, Anext, Anext, Anext]"
    by (simp add: numeral_eq_Suc)
  show ?thesis
    using fetch_document_by_id_first_match [OF h, of "''a''"]
      fetch_document_by_id_first_match [OF h, of "''zz''"] none
    by (simp only: f r simp_thms)
qed

text \<open>
  C5. When the transcript call succeeds and the metadata call returns an object without
  \<^verbatim>\<open>model_dump\<close>, \<open>fetch_document_details\<close> returns details with an empty metadata
  dictionary; when the object has \<^verbatim>\<open>model_dump\<close>, the dictionary it exports is used.
\<close>

theorem fetch_document_details_metadata:
  assumes "get_document_transcript (client self) (document_id doc) = Inr segments"
  shows "(get_document_metadata (client self) (document_id doc) = Inr PlainObject \<longrightarrow>
            result (fetch_document_details self doc) =
              Inr \<lparr>document = doc, transcript = format_transcript_segments segments,
                    metadata = Map.empty\<rparr>)
       \<and> (get_document_metadata (client self) (document_id doc) = Inr (PydanticModel d) \<longrightarrow>
            result (fetch_document_details self doc) =
              Inr \<lparr>document = doc, transcript = format_transcript_segments segments,
                    metadata = d\<rparr>)"
  using assms by (simp add: fetch_document_details_def Let_def)

theorem fetch_document_details_metadata_witness:
  "result (fetch_document_details (example_fetcher StopAsyncIteration) doc_b) =
     Inr \<lparr>document = doc_b, transcript = '''', metadata = Map.empty\<rparr>
   \<and> result (fetch_document_details (example_fetcher StopAsyncIteration) doc_a) =
     Inr \<lparr>document = doc_a, transcript = ''Hello\<newline>\<newline>World'',
           metadata = [''title'' \<mapsto> PyStr ''Standup'']\<rparr>"
proof -
  let ?f = "example_fetcher StopAsyncIteration"
  have a1: "get_document_transcript (client ?f) (document_id doc_a) =
      Inr [TranscriptSegment ''Hello'', TranscriptSegment ''World'']"
    by (simp add: example_fetcher_def example_client_def doc_a_def)
  have a2: "get_document_metadata (client ?f) (document_id doc_a) =
      Inr (PydanticModel [''title'' \<mapsto> PyStr ''Standup''])"
    by (simp add: example_fetcher_def example_client_def doc_a_def)
  have b1: "get_document_transcript (client ?f) (document_id doc_b) = Inr []"
    by (simp add: example_fetcher_def example_client_def doc_b_def)
  have b2: "get_document_metadata (client ?f) (document_id doc_b) = Inr PlainObject"
    by (simp add: example_fetcher_def example_client_def doc_b_def)
  have j1: "format_transcript_segments [TranscriptSegment ''Hello'', TranscriptSegment ''World''] =
      ''Hello\<newline>\<newline>World''"
    by (simp add: format_transcript_segments_def)
  have j2: "format_transcript_segments [] = ''''"
    by (simp add: format_transcript_segments_def)
  show ?thesis
    using fetch_document_details_metadata [OF a1, of "[''title'' \<mapsto> PyStr ''Standup'']"]
      fetch_document_details_metadata [OF b1, of Map.empty] a2 b2
    by (simp only: j1 j2 simp_thms)
qed


text \<open>
  C7. With an empty workspace list the workspace filter is skipped. When the client's
  listing is the enumeration of \<open>D\<close>, \<open>fetch_new_documents\<close> with an empty workspace
  list returns what the update-time filter alone gives on \<open>D\<close>: the whole of \<open>D\<close> when
  there is no threshold, and the documents of \<open>D\<close> at or after the threshold when there
  is one (with update timestamps that parse to aware values), not the empty list. For
  every client, the outcome is the one with no workspace list.
\<close>

theorem fetch_new_documents_empty_workspace_list:
  "(list_all_documents (client self) = enumerates D \<longrightarrow>
      map_option result (fetch_new_documents parse_datetime self since (Some [])) =
        Some (apply_since parse_datetime since D)
      \<and> map_option result (fetch_new_documents parse_datetime self None (Some [])) =
        Some (Inr D)
      \<and> ((\<forall>d\<in>set D. parse_datetime (updated_at d) = Inr (ts d) \<and> tzinfo (ts d) \<noteq> None) \<longrightarrow>
           map_option result (fetch_new_documents parse_datetime self (Some s) (Some [])) =
             Some (Inr (filter (\<lambda>d. utc_instant s \<le> utc_instant (ts d)) D))))
   \<and> fetch_new_documents parse_datetime self since (Some []) =
       fetch_new_documents parse_datetime self since None"
proof (intro conjI impI)
  assume g: "list_all_documents (client self) = enumerates D"
  show "map_option result (fetch_new_documents parse_datetime self since (Some [])) =
        Some (apply_since parse_datetime since D)"
    by (simp add: fetch_new_documents_def g drain_enumerates apply_workspaces_def
        split: sum.splits)
next
  assume g: "list_all_documents (client self) = enumerates D"
  show "map_option result (fetch_new_documents parse_datetime self None (Some [])) =
        Some (Inr D)"
    by (simp add: fetch_new_documents_def g drain_enumerates apply_since_def
        apply_workspaces_def)
next
  assume g: "list_all_documents (client self) = enumerates D"
    and ok: "\<forall>d\<in>set D. parse_datetime (updated_at d) = Inr (ts d) \<and> tzinfo (ts d) \<noteq> None"
  show "map_option result (fetch_new_documents parse_datetime self (Some s) (Some [])) =
             Some (Inr (filter (\<lambda>d. utc_instant s \<le> utc_instant (ts d)) D))"
    by (simp add: fetch_new_documents_def g drain_enumerates apply_since_aware [OF ok]
        apply_workspaces_def)
next
  show "fetch_new_documents parse_datetime self since (Some []) =
       fetch_new_documents parse_datetime self since None"
    unfolding fetch_new_documents_def apply_workspaces_empty by (rule refl)
qed

theorem fetch_new_documents_empty_workspace_list_witness:
  "map_option result
     (fetch_new_documents example_parse (example_fetcher (enumerates [doc_a, doc_b, doc_c]))
        None (Some [])) = Some (Inr [doc_a, doc_b, doc_c])
   \<and> map_option result
     (fetch_new_documents example_parse (example_fetcher (enumerates [doc_a, doc_b, doc_c]))
        (Some (Aware 0 0)) (Some [])) = Some (Inr [doc_a, doc_b])"
proof -
  let ?ts = "\<lambda>d. projr (example_parse (updated_at d))"
  let ?D = "[doc_a, doc_b, doc_c]"
  have h1: "list_all_documents (client (example_fetcher (enumerates ?D))) = enumerates ?D"
    by (simp add: example_fetcher_def example_client_def)
  have h3: "\<forall>d\<in>set ?D. example_parse (updated_at d) = Inr (?ts d) \<and> tzinfo (?ts d) \<noteq> None"
    by (simp add: example_parse_def doc_a_def doc_b_def doc_c_def)
  have k: "filter (\<lambda>d. utc_instant (Aware 0 0) \<le> utc_instant (?ts d)) ?D = [doc_a, doc_b]"
    by (simp add: example_parse_def doc_a_def doc_b_def doc_c_def)
  note T = fetch_new_documents_empty_workspace_list [where parse_datetime = example_parse
      and ts = ?ts and s = "Aware 0 0" and since = None, THEN conjunct1, THEN mp, OF h1]
  note b = T [THEN conjunct2, THEN conjunct1]
  note c = T [THEN conjunct2, THEN conjunct2, THEN mp, OF h3]
  show ?thesis
    using b c
    by (simp only: k simp_thms)
qed

text \<open>
  C8. When the client's listing yields the documents \<open>docs\<close>, none of which has the
  identifier, and then a document \<open>d\<close> that has it, \<open>fetch_document_by_id\<close> returns \<open>d\<close>
  after exactly \<open>length docs + 1\<close> pulls, whatever the listing would do afterwards
  (yield more, raise, or never end).
\<close>

theorem fetch_document_by_id_early_exit:
  assumes "list_all_documents (client self) = yields docs (Yield d rest)"
      and "\<forall>x\<in>set docs. document_id x \<noteq> i"
      and "document_id d = i"
  shows "fetch_document_by_id self i =
           Some \<lparr>result = Inr (Some d),
                  awaited = ListAllDocuments # replicate (length docs + 1) Anext,
                  self_after = self\<rparr>"
  using assms by (simp add: fetch_document_by_id_def scan_yields)

theorem fetch_document_by_id_early_exit_witness:
  "fetch_document_by_id
     (example_fetcher (yields [doc_a, doc_b] (Yield doc_c (Raise (ClientError ''page 2 failed'')))))
     ''c'' =
   Some \<lparr>result = Inr (Some doc_c),
          awaited = [ListAllDocuments, Anext, Anext, Anext],
          self_after =
            example_fetcher
              (yields [doc_a, doc_b] (Yield doc_c (Raise (ClientError ''page 2 failed''))))\<rparr>"
proof -
  let ?g = "yields [doc_a, doc_b] (Yield doc_c (Raise (ClientError ''page 2 failed'')))"
  have h1: "list_all_documents (client (example_fetcher ?g)) = ?g"
    by (simp add: example_fetcher_def example_client_def)
  have h2: "\<forall>x\<in>set [doc_a, doc_b]. document_id x \<noteq> ''c''"
    by (simp add: doc_a_def doc_b_def)
  have h3: "document_id doc_c = ''c''"
    by (simp add: doc_c_def)
  have r: "ListAllDocuments # replicate (length [doc_a, doc_b] + 1) Anext =
      [ListAllDocuments, Anext, Anext, Anext]"
    by (simp add: numeral_eq_Suc)
  show ?thesis
    using fetch_document_by_id_early_exit [OF h1 h2 h3]
    by (simp only: r)
qed

text \<open>
  C9. Failures go through unchanged, and nothing is awaited after them. An error raised
  by the listing is the outcome of \<open>fetch_new_documents\<close> and, when no earlier document
  has the identifier, of \<open>fetch_document_by_id\<close>, after one pull per document yielded
  plus the failing one. With a threshold, the parse error of the first document whose
  update timestamp does not parse is the outcome of \<open>fetch_new_documents\<close>. An error of
  the transcript call is the outcome of \<open>fetch_document_details\<close>, which then makes no
  metadata call; an error of the metadata call is its outcome after one transcript
  call and one metadata call.
\<close>

theorem failures_propagate:
  "(list_all_documents (client self) = yields docs (Raise e) \<longrightarrow>
      fetch_new_documents parse_datetime self since workspace_ids =
        Some \<lparr>result = Inl e,
               awaited = ListAllDocuments # replicate (length docs + 1) Anext,
               self_after = self\<rparr>)
   \<and> (list_all_documents (client self) = enumerates (docs @ bad # docs') \<and>
      (\<forall>d\<in>set docs. parse_datetime (updated_at d) = Inr (ts d) \<and> tzinfo (ts d) \<noteq> None) \<and>
      parse_datetime (updated_at bad) = Inl e \<longrightarrow>
      fetch_new_documents parse_datetime self (Some s) workspace_ids =
        Some \<lparr>result = Inl e,
               awaited =
                 ListAllDocuments # replicate (length (docs @ bad # docs') + 1) Anext,
               self_after = self\<rparr>)
   \<and> (get_document_transcript (client self) (document_id doc) = Inl e \<longrightarrow>
      fetch_document_details self doc =
        \<lparr>result = Inl e, awaited = [GetDocumentTranscript (document_id doc)],
         self_after = self\<rparr>)
   \<and> (get_document_transcript (client self) (document_id doc) = Inr segments \<and>
      get_document_metadata (client self) (document_id doc) = Inl e \<longrightarrow>
      fetch_document_details self doc =
        \<lparr>result = Inl e,
         awaited = [GetDocumentTranscript (document_id doc),
                    GetDocumentMetadata (document_id doc)],
         self_after = self\<rparr>)
   \<and> (list_all_documents (client self) = yields docs (Raise e) \<and>
      (\<forall>d\<in>set docs. document_id d \<noteq> i) \<longrightarrow>
      fetch_document_by_id self i =
        Some \<lparr>result = Inl e,
               awaited = ListAllDocuments # replicate (length docs + 1) Anext,
               self_after = self\<rparr>)"
proof (intro conjI impI; (elim conjE)?)
  assume "list_all_documents (client self) = yields docs (Raise e)"
  then show "fetch_new_documents parse_datetime self since workspace_ids =
        Some \<lparr>result = Inl e,
               awaited = ListAllDocuments # replicate (length docs + 1) Anext,
               self_after = self\<rparr>"
    by (simp add: fetch_new_documents_def drain_yields)
next
  assume g: "list_all_documents (client self) = enumerates (docs @ bad # docs')"
    and ok: "\<forall>d\<in>set docs. parse_datetime (updated_at d) = Inr (ts d) \<and> tzinfo (ts d) \<noteq> None"
    and bad: "parse_datetime (updated_at bad) = Inl e"
  show "fetch_new_documents parse_datetime self (Some s) workspace_ids =
        Some \<lparr>result = Inl e,
               awaited =
                 ListAllDocuments # replicate (length (docs @ bad # docs') + 1) Anext,
               self_after = self\<rparr>"
    by (simp add: fetch_new_documents_def g drain_enumerates
        apply_since_parse_error [OF ok bad])
next
  assume "get_document_transcript (client self) (document_id doc) = Inl e"
  then show "fetch_document_details self doc =
        \<lparr>result = Inl e, awaited = [GetDocumentTranscript (document_id doc)],
         self_after = self\<rparr>"
    by (simp add: fetch_document_details_def Let_def)
next
  assume "get_document_transcript (client self) (document_id doc) = Inr segments"
    and "get_document_metadata (client self) (document_id doc) = Inl e"
  then show "fetch_document_details self doc =
        \<lparr>result = Inl e,
         awaited = [GetDocumentTranscript (document_id doc),
                    GetDocumentMetadata (document_id doc)],
         self_after = self\<rparr>"
    by (simp add: fetch_document_details_def Let_def)
next
  assume "list_all_documents (client self) = yields docs (Raise e)"
    and "\<forall>d\<in>set docs. document_id d \<noteq> i"
  then show "fetch_document_by_id self i =
        Some \<lparr>result = Inl e,
               awaited = ListAllDocuments # replicate (length docs + 1) Anext,
               self_after = self\<rparr>"
    by (simp add: fetch_document_by_id_def scan_yields)
qed

theorem failures_propagate_witness:
  "fetch_new_documents example_parse
     (example_fetcher (yields [doc_a] (Raise (ClientError ''timeout'')))) None None =
     Some \<lparr>result = Inl (ClientError ''timeout''),
            awaited = [ListAllDocuments, Anext, Anext],
            self_after = example_fetcher (yields [doc_a] (Raise (ClientError ''timeout'')))\<rparr>
   \<and> fetch_new_documents example_parse
     (example_fetcher (enumerates [doc_a, doc_bad, doc_b])) (Some (Aware 0 0)) None =
     Some \<lparr>result = Inl (ParserError ''yesterday-ish''),
            awaited = [ListAllDocuments, Anext, Anext, Anext, Anext],
            self_after = example_fetcher (enumerates [doc_a, doc_bad, doc_b])\<rparr>
   \<and> fetch_document_details (example_fetcher StopAsyncIteration) doc_bad =
     \<lparr>result = Inl (ClientError ''transcript not found''),
      awaited = [GetDocumentTranscript ''x''],
      self_after = example_fetcher StopAsyncIteration\<rparr>
   \<and> fetch_document_details (example_fetcher StopAsyncIteration) doc_c =
     \<lparr>result = Inl (ClientError ''metadata not found''),
      awaited = [GetDocumentTranscript ''c'', GetDocumentMetadata ''c''],
      self_after = example_fetcher StopAsyncIteration\<rparr>
   \<and> fetch_document_by_id
     (example_fetcher (yields [doc_a] (Raise (ClientError ''timeout'')))) ''zz'' =
     Some \<lparr>result = Inl (ClientError ''timeout''),
            awaited = [ListAllDocuments, Anext, Anext],
            self_after = example_fetcher (yields [doc_a] (Raise (ClientError ''timeout'')))\<rparr>"
proof -
  let ?e = "ClientError ''timeout''"
  let ?F1 = "example_fetcher (yields [doc_a] (Raise ?e))"
  let ?F2 = "example_fetcher (enumerates [doc_a, doc_bad, doc_b])"
  let ?F3 = "example_fetcher StopAsyncIteration"
  let ?ts = "\<lambda>d. projr (example_parse (updated_at d))"
  have g1: "list_all_documents (client ?F1) = yields [doc_a] (Raise ?e)"
    by (simp add: example_fetcher_def example_client_def)
  have g2: "list_all_documents (client ?F2) = enumerates ([doc_a] @ doc_bad # [doc_b])"
    by (simp add: example_fetcher_def example_client_def)
  have ok: "\<forall>d\<in>set [doc_a].
      example_parse (updated_at d) = Inr (?ts d) \<and> tzinfo (?ts d) \<noteq> None"
    by (simp add: example_parse_def doc_a_def)
  have bad: "example_parse (updated_at doc_bad) = Inl (ParserError ''yesterday-ish'')"
    by (simp add: example_parse_def doc_bad_def)
  have t1: "get_document_transcript (client ?F3) (document_id doc_bad) =
      Inl (ClientError ''transcript not found'')"
    by (simp add: example_fetcher_def example_client_def doc_bad_def)
  have t2: "get_document_transcript (client ?F3) (document_id doc_c) =
      Inr [TranscriptSegment ''Only'']"
    by (simp add: example_fetcher_def example_client_def doc_c_def)
  have m2: "get_document_metadata (client ?F3) (document_id doc_c) =
      Inl (ClientError ''metadata not found'')"
    by (simp add: example_fetcher_def example_client_def doc_c_def)
  have none: "\<forall>d\<in>set [doc_a]. document_id d \<noteq> ''zz''"
    by (simp add: doc_a_def)
  have r1: "ListAllDocuments # replicate (length [doc_a] + 1) Anext =
      [ListAllDocuments, Anext, Anext]"
    by (simp add: numeral_eq_Suc)
  have r2: "ListAllDocuments # replicate (length [doc_a, doc_bad, doc_b] + 1) Anext =
      [ListAllDocuments, Anext, Anext, Anext, Anext]"
    by (simp add: numeral_eq_Suc)
  have i1: "document_id doc_bad = ''x''"
    by (simp add: doc_bad_def)
  have i2: "document_id doc_c = ''c''"
    by (simp add: doc_c_def)
  have l2: "[doc_a] @ doc_bad # [doc_b] = [doc_a, doc_bad, doc_b]"
    by simp
  note a = failures_propagate [where self = ?F1 and docs = "[doc_a]" and e = ?e
      and parse_datetime = example_parse and since = None and workspace_ids = None,
      THEN conjunct1, THEN mp, OF g1]
  note b = failures_propagate [where self = ?F2 and docs = "[doc_a]" and bad = doc_bad
      and docs' = "[doc_b]" and e = "ParserError ''yesterday-ish''" and ts = ?ts
      and parse_datetime = example_parse and s = "Aware 0 0" and workspace_ids = None,
      THEN conjunct2, THEN conjunct1, THEN mp, OF conjI [OF g2 conjI [OF ok bad]]]
  note c = failures_propagate [where self = ?F3 and doc = doc_bad
      and e = "ClientError ''transcript not found''",
      THEN conjunct2, THEN conjunct2, THEN conjunct1, THEN mp, OF t1]
  note d = failures_propagate [where self = ?F3 and doc = doc_c
      and e = "ClientError ''metadata not found''" and segments = "[TranscriptSegment ''Only'']",
      THEN conjunct2, THEN conjunct2, THEN conjunct2, THEN conjunct1, THEN mp,
      OF conjI [OF t2 m2]]
  note e = failures_propagate [where self = ?F1 and docs = "[doc_a]" and e = ?e
      and i = "''zz''",
      THEN conjunct2, THEN conjunct2, THEN conjunct2, THEN conjunct2, THEN mp,
      OF conjI [OF g1 none]]
  show ?thesis
    using a b c d e
    by (simp only: r1 r2 i1 i2 l2 simp_thms)
qed

text \<open>
  C10. A fetcher is its client handle and nothing else; the handle is the one the
  constructor of the client returned to \<open>init\<close>; and after each of the three
  operations, whether it returned or raised, the instance is the one it was called on.
\<close>

theorem fetcher_state_unchanged:
  "self = \<lparr>client = client self\<rparr>
   \<and> (init GranolaClient token = Inr self \<longrightarrow>
        GranolaClient (if token \<noteq> None \<and> token \<noteq> Some [] then token else None) =
          Inr (client self))
   \<and> (fetch_new_documents parse_datetime self since workspace_ids = Some out_list \<longrightarrow>
        self_after out_list = self)
   \<and> self_after (fetch_document_details self doc) = self
   \<and> (fetch_document_by_id self i = Some out_by_id \<longrightarrow> self_after out_by_id = self)"
proof (intro conjI impI)
  show "self = \<lparr>client = client self\<rparr>"
    by simp
next
  assume "init GranolaClient token = Inr self"
  then show "GranolaClient (if token \<noteq> None \<and> token \<noteq> Some [] then token else None) =
          Inr (client self)"
    by (auto simp: init_def split: if_splits sum.splits)
next
  assume "fetch_new_documents parse_datetime self since workspace_ids = Some out_list"
  then show "self_after out_list = self"
    by (auto simp: fetch_new_documents_def split: option.splits prod.splits sum.splits)
next
  show "self_after (fetch_document_details self doc) = self"
    by (simp add: fetch_document_details_def Let_def split: sum.splits)
next
  assume "fetch_document_by_id self i = Some out_by_id"
  then show "self_after out_by_id = self"
    by (auto simp: fetch_document_by_id_def split: option.splits prod.splits)
qed

theorem fetcher_state_unchanged_witness:
  "map_sum id client (init (\<lambda>t. Inr (example_client StopAsyncIteration)) (Some ''token'')) =
     Inr (example_client StopAsyncIteration)
   \<and> map_option self_after
       (fetch_new_documents example_parse (example_fetcher (enumerates [doc_a, doc_b]))
          None None) = Some (example_fetcher (enumerates [doc_a, doc_b]))
   \<and> self_after (fetch_document_details (example_fetcher (enumerates [doc_a, doc_b])) doc_a) =
       example_fetcher (enumerates [doc_a, doc_b])
   \<and> map_option self_after
       (fetch_document_by_id (example_fetcher (enumerates [doc_a, doc_b])) ''b'') =
       Some (example_fetcher (enumerates [doc_a, doc_b]))"
proof -
  let ?F = "example_fetcher (enumerates [doc_a, doc_b])"
  let ?G = "\<lambda>t::string option. (Inr (example_client StopAsyncIteration) :: error + granola_client)"
  obtain f where f: "init ?G (Some ''token'') = Inr f"
    by (simp add: init_def)
  obtain o1 where o1: "fetch_new_documents example_parse ?F None None = Some o1"
    by (simp add: fetch_new_documents_def example_fetcher_def example_client_def
        drain_enumerates apply_since_def)
  obtain o2 where o2: "fetch_document_by_id ?F ''b'' = Some o2"
    by (simp add: fetch_document_by_id_def example_fetcher_def example_client_def
        enumerates_def doc_a_def doc_b_def)
  note T = fetcher_state_unchanged [where self = ?F and parse_datetime = example_parse
      and since = None and workspace_ids = None and out_list = o1 and i = "''b''" and out_by_id = o2
      and doc = doc_a]
  note I = fetcher_state_unchanged [where self = f and GranolaClient = ?G
      and token = "Some ''token''", THEN conjunct2, THEN conjunct1, THEN mp, OF f]
  have c1: "client f = example_client StopAsyncIteration"
    using I by simp
  show ?thesis
    using T o1 o2 f c1 by simp
qed

end
